theory Spec2Isabelle
  imports Main "HOL-Library.AList"
begin

section \<open>Data model\<close>

text \<open>
  The program is \<^verbatim>\<open>src/app.py\<close>. The two functions with a contract are
  \<^verbatim>\<open>get_prayer_times\<close> (lines 29-74) and \<^verbatim>\<open>get_zawal_time\<close> (lines 76-87).

  City identifiers and the time literals of the catalog are modelled as \<^typ>\<open>string\<close>:
  a Python \<^verbatim>\<open>str\<close> all of whose code points are below 256, one \<^typ>\<open>char\<close> per
  code point. A Python \<^verbatim>\<open>str\<close> in general is a list of Unicode code points: the six
  prayer names of the inner dictionaries, which are Urdu literals, and the argument of
  \<^verbatim>\<open>get_zawal_time\<close>, which may be any string.
\<close>

type_synonym ustr = "nat list"

text \<open>The exceptions the two functions can meet; all are subclasses of \<^verbatim>\<open>Exception\<close>.\<close>

datatype error = KeyError | ValueError | OverflowError

text \<open>
  A Python \<^verbatim>\<open>dict\<close> keeps its keys in insertion order, and storing under a key that
  is already present replaces the value where the key stands. That is an association list
  built with \<^const>\<open>AList.update\<close>. A dictionary display \<^verbatim>\<open>{k1: v1, k2: v2, ...}\<close>
  stores its items from left to right.
\<close>

type_synonym ('k, 'v) pydict = "('k \<times> 'v) list"

definition dict_display :: "('k \<times> 'v) list \<Rightarrow> ('k, 'v) pydict" where
  "dict_display kvs = foldl (\<lambda>d (k, v). AList.update k v d) [] kvs"

definition dict_keys :: "('k, 'v) pydict \<Rightarrow> 'k list" where
  "dict_keys d = map fst d"

definition dict_len :: "('k, 'v) pydict \<Rightarrow> nat" where
  "dict_len d = length d"

text \<open>\<^verbatim>\<open>d[k]\<close> raises \<^verbatim>\<open>KeyError\<close> on a missing key; \<^verbatim>\<open>d.get(k, default)\<close> never raises.\<close>

definition dict_getitem :: "('k, 'v) pydict \<Rightarrow> 'k \<Rightarrow> error + 'v" where
  "dict_getitem d k = (case map_of d k of None \<Rightarrow> Inl KeyError | Some v \<Rightarrow> Inr v)"

definition dict_get :: "('k, 'v) pydict \<Rightarrow> 'k \<Rightarrow> 'v \<Rightarrow> 'v" where
  "dict_get d k dflt = (case map_of d k of None \<Rightarrow> dflt | Some v \<Rightarrow> v)"

section \<open>The prayer-time catalog\<close>

text \<open>The six keys of every inner dictionary, by code point (lines 33-38 and the like).\<close>

definition fajr :: ustr where
  "fajr = [0x641, 0x62C, 0x631]"

definition tulu_aftab :: ustr where
  "tulu_aftab = [0x637, 0x644, 0x648, 0x639, 0x20, 0x622, 0x641, 0x62A, 0x627, 0x628]"

definition zuhr :: ustr where
  "zuhr = [0x638, 0x6C1, 0x631]"

definition asr :: ustr where
  "asr = [0x639, 0x635, 0x631]"

definition maghrib :: ustr where
  "maghrib = [0x645, 0x63A, 0x631, 0x628]"

definition isha :: ustr where
  "isha = [0x639, 0x634, 0x627, 0x621]"

type_synonym prayer_time_set = "(ustr, string) pydict"

definition karachi_times :: prayer_time_set where
  "karachi_times = dict_display
     [(fajr, ''05:15 AM''), (tulu_aftab, ''06:45 AM''), (zuhr, ''12:30 PM''),
      (asr, ''04:00 PM''), (maghrib, ''06:45 PM''), (isha, ''08:15 PM'')]"

definition lahore_times :: prayer_time_set where
  "lahore_times = dict_display
     [(fajr, ''04:45 AM''), (tulu_aftab, ''06:15 AM''), (zuhr, ''12:15 PM''),
      (asr, ''03:45 PM''), (maghrib, ''06:30 PM''), (isha, ''08:00 PM'')]"

definition islamabad_times :: prayer_time_set where
  "islamabad_times = dict_display
     [(fajr, ''04:30 AM''), (tulu_aftab, ''06:00 AM''), (zuhr, ''12:10 PM''),
      (asr, ''03:40 PM''), (maghrib, ''06:25 PM''), (isha, ''07:55 PM'')]"

definition peshawar_times :: prayer_time_set where
  "peshawar_times = dict_display
     [(fajr, ''04:35 AM''), (tulu_aftab, ''06:05 AM''), (zuhr, ''12:20 PM''),
      (asr, ''03:50 PM''), (maghrib, ''06:35 PM''), (isha, ''08:05 PM'')]"

definition quetta_times :: prayer_time_set where
  "quetta_times = dict_display
     [(fajr, ''05:00 AM''), (tulu_aftab, ''06:30 AM''), (zuhr, ''12:40 PM''),
      (asr, ''04:10 PM''), (maghrib, ''07:00 PM''), (isha, ''08:30 PM'')]"

definition prayer_times_data :: "(string, prayer_time_set) pydict" where
  "prayer_times_data = dict_display
     [(''Karachi'', karachi_times), (''Lahore'', lahore_times),
      (''Islamabad'', islamabad_times), (''Peshawar'', peshawar_times),
      (''Quetta'', quetta_times)]"

text \<open>
  \<^verbatim>\<open>return prayer_times_data.get(city, prayer_times_data["Karachi"])\<close>: the default
  argument is evaluated first, with the subscript that can raise.
\<close>

definition get_prayer_times :: "string \<Rightarrow> error + prayer_time_set" where
  "get_prayer_times city =
     (case dict_getitem prayer_times_data ''Karachi'' of
        Inl e \<Rightarrow> Inl e
      | Inr dflt \<Rightarrow> Inr (dict_get prayer_times_data city dflt))"

text \<open>
  \<^verbatim>\<open>def get_prayer_times(city="Karachi")\<close>: a call site passes the argument or leaves
  it out; \<^const>\<open>None\<close> is the call with no argument.
\<close>

definition get_prayer_times_call :: "string option \<Rightarrow> error + prayer_time_set" where
  "get_prayer_times_call arg =
     get_prayer_times (case arg of None \<Rightarrow> ''Karachi'' | Some city \<Rightarrow> city)"

section \<open>Parsing: \<^verbatim>\<open>datetime.datetime.strptime(dhuhr_time, "%I:%M %p")\<close>\<close>

text \<open>
  The library (CPython 3.11 and 3.12) turns the format into the regular expression
  \<^verbatim>\<open>(?P<I>1[0-2]|0[1-9]|[1-9]):(?P<M>[0-5]\d|\d)\s+(?P<p>am|pm)\<close>, compiled with
  \<^verbatim>\<open>IGNORECASE\<close> (the names of the two half-days are those of the C locale, which a
  Python process has for \<^verbatim>\<open>LC_TIME\<close> unless it sets another), matches it at the
  start of the string, and raises \<^verbatim>\<open>ValueError\<close> when there is no match or when
  the match stops before the end of the string.
\<close>

definition code_point :: "char \<Rightarrow> nat" where
  "code_point c = of_char c"

text \<open>The code points of a string written with characters below 256.\<close>

definition py_str :: "string \<Rightarrow> ustr" where
  "py_str s = map code_point s"

text \<open>
  \<^verbatim>\<open>\d\<close> matches the decimal digits of Unicode, and \<^verbatim>\<open>int\<close> reads them: they come
  in runs of ten consecutive code points with the values 0 to 9. These are the first code
  points of the runs (Unicode 14.0, the version of CPython 3.11).
\<close>

definition decimal_runs :: "nat list" where
  "decimal_runs =
     [0x30, 0x660, 0x6F0, 0x7C0, 0x966, 0x9E6, 0xA66, 0xAE6, 0xB66, 0xBE6, 0xC66, 0xCE6,
      0xD66, 0xDE6, 0xE50, 0xED0, 0xF20, 0x1040, 0x1090, 0x17E0, 0x1810, 0x1946, 0x19D0,
      0x1A80, 0x1A90, 0x1B50, 0x1BB0, 0x1C40, 0x1C50, 0xA620, 0xA8D0, 0xA900, 0xA9D0,
      0xA9F0, 0xAA50, 0xABF0, 0xFF10, 0x104A0, 0x10D30, 0x11066, 0x110F0, 0x11136,
      0x111D0, 0x112F0, 0x11450, 0x114D0, 0x11650, 0x116C0, 0x11730, 0x118E0, 0x11950,
      0x11C50, 0x11D50, 0x11DA0, 0x16A60, 0x16AC0, 0x16B50, 0x1D7CE, 0x1D7D8, 0x1D7E2,
      0x1D7EC, 0x1D7F6, 0x1E140, 0x1E2F0, 0x1E950, 0x1FBF0]"

definition decimal :: "nat \<Rightarrow> nat option" where
  "decimal c =
     (case List.find (\<lambda>s. s \<le> c \<and> c < s + 10) decimal_runs of
        None \<Rightarrow> None
      | Some s \<Rightarrow> Some (c - s))"

definition is_digit :: "nat \<Rightarrow> bool" where
  "is_digit c = (decimal c \<noteq> None)"

text \<open>\<^verbatim>\<open>\s\<close> matches the white space of Unicode.\<close>

definition whitespace :: "nat list" where
  "whitespace =
     [0x9, 0xA, 0xB, 0xC, 0xD, 0x1C, 0x1D, 0x1E, 0x1F, 0x20, 0x85, 0xA0, 0x1680, 0x2000,
      0x2001, 0x2002, 0x2003, 0x2004, 0x2005, 0x2006, 0x2007, 0x2008, 0x2009, 0x200A,
      0x2028, 0x2029, 0x202F, 0x205F, 0x3000]"

definition is_space :: "nat \<Rightarrow> bool" where
  "is_space c = (c \<in> set whitespace)"

text \<open>A character class \<^verbatim>\<open>[lo-hi]\<close>.\<close>

definition in_range :: "char \<Rightarrow> char \<Rightarrow> nat \<Rightarrow> bool" where
  "in_range lo hi c = (code_point lo \<le> c \<and> c \<le> code_point hi)"

text \<open>
  Under \<^verbatim>\<open>IGNORECASE\<close> each of the letters \<^verbatim>\<open>a\<close>, \<^verbatim>\<open>m\<close>, \<^verbatim>\<open>p\<close> of the pattern
  matches itself and its capital, 32 below it; no other code point of Unicode has one of
  them as its lower case or shares its upper case.
\<close>

definition ignorecase :: "char \<Rightarrow> nat \<Rightarrow> bool" where
  "ignorecase x c = (c = code_point x \<or> c + 32 = code_point x)"

text \<open>
  \<^verbatim>\<open>str.lower\<close>, which the library applies to the text of the meridiem group: on the
  letters that group can hold it is the lower case of \<^verbatim>\<open>A\<close> to \<^verbatim>\<open>Z\<close>.
\<close>

definition lower_char :: "nat \<Rightarrow> nat" where
  "lower_char c = (if 65 \<le> c \<and> c \<le> 90 then c + 32 else c)"

text \<open>
  A backtracking matcher returns every way it can match at the start of the string, the
  way the engine tries first at the head: the text matched, and the rest of the string.
\<close>

type_synonym matcher = "ustr \<Rightarrow> (ustr \<times> ustr) list"

definition then_match :: "('a \<times> ustr) list \<Rightarrow> ('a \<Rightarrow> ustr \<Rightarrow> 'b list) \<Rightarrow> 'b list" where
  "then_match ms f = concat (map (\<lambda>(a, r). f a r) ms)"

definition re_class :: "(nat \<Rightarrow> bool) \<Rightarrow> matcher" where
  "re_class P s = (case s of [] \<Rightarrow> [] | c # r \<Rightarrow> if P c then [([c], r)] else [])"

definition re_seq :: "matcher \<Rightarrow> matcher \<Rightarrow> matcher" where
  "re_seq p q s = then_match (p s) (\<lambda>a r. then_match (q r) (\<lambda>b r'. [(a @ b, r')]))"

definition re_alt :: "matcher \<Rightarrow> matcher \<Rightarrow> matcher" where
  "re_alt p q s = p s @ q s"

text \<open>The greedy \<^verbatim>\<open>+\<close> on a character class: the longest run first.\<close>

fun re_plus :: "(nat \<Rightarrow> bool) \<Rightarrow> matcher" where
  "re_plus P [] = []"
| "re_plus P (c # r) =
     (if P c then map (\<lambda>(a, r'). (c # a, r')) (re_plus P r) @ [([c], r)] else [])"

definition re_lit :: "char \<Rightarrow> matcher" where
  "re_lit x = re_class (\<lambda>c. c = code_point x)"

definition re_I :: matcher where
  "re_I =
     re_alt (re_seq (re_lit CHR ''1'') (re_class (in_range CHR ''0'' CHR ''2'')))
    (re_alt (re_seq (re_lit CHR ''0'') (re_class (in_range CHR ''1'' CHR ''9'')))
            (re_class (in_range CHR ''1'' CHR ''9'')))"

definition re_M :: matcher where
  "re_M =
     re_alt (re_seq (re_class (in_range CHR ''0'' CHR ''5'')) (re_class is_digit))
            (re_class is_digit)"

definition re_p :: matcher where
  "re_p =
     re_alt (re_seq (re_class (ignorecase CHR ''a'')) (re_class (ignorecase CHR ''m'')))
            (re_seq (re_class (ignorecase CHR ''p'')) (re_class (ignorecase CHR ''m'')))"

text \<open>All matches of the whole expression, with the three groups and the unmatched rest.\<close>

definition format_regex_matches :: "ustr \<Rightarrow> ((ustr \<times> ustr \<times> ustr) \<times> ustr) list" where
  "format_regex_matches s =
     then_match (re_I s) (\<lambda>i r1.
     then_match (re_lit CHR '':'' r1) (\<lambda>_ r2.
     then_match (re_M r2) (\<lambda>m r3.
     then_match (re_plus is_space r3) (\<lambda>_ r4.
     then_match (re_p r4) (\<lambda>p r5. [((i, m, p), r5)])))))"

definition format_regex_match :: "ustr \<Rightarrow> ((ustr \<times> ustr \<times> ustr) \<times> ustr) option" where
  "format_regex_match s = (case format_regex_matches s of [] \<Rightarrow> None | x # _ \<Rightarrow> Some x)"

text \<open>
  \<^verbatim>\<open>int\<close> of the text of a group. The hour and minute groups hold decimal digits only,
  so the conversion does not raise.
\<close>

definition decimal_value :: "nat \<Rightarrow> nat" where
  "decimal_value c = (case decimal c of None \<Rightarrow> 0 | Some v \<Rightarrow> v)"

definition py_int :: "ustr \<Rightarrow> int" where
  "py_int s = foldl (\<lambda>n c. 10 * n + int (decimal_value c)) 0 s"

text \<open>
  A \<^verbatim>\<open>datetime\<close>: the proleptic Gregorian ordinal of its date (\<^verbatim>\<open>toordinal()\<close>), the
  hour and the minute. Seconds and microseconds are 0 in every value the program builds.
  The date \<^verbatim>\<open>strptime\<close> gives when the format has none is 1900-01-01, ordinal 693596.
\<close>

record datetime =
  ordinal :: int
  hour :: int
  minute :: int

definition strptime :: "ustr \<Rightarrow> error + datetime" where
  "strptime data_string =
     (case format_regex_match data_string of
        None \<Rightarrow> Inl ValueError
      | Some ((i, m, p), rest) \<Rightarrow>
          if rest \<noteq> [] then Inl ValueError
          else
            let h = py_int i;
                ampm = map lower_char p;
                h' = (if ampm = py_str ''am'' then (if h = 12 then 0 else h)
                      else if ampm = py_str ''pm'' then (if h \<noteq> 12 then h + 12 else h)
                      else h)
            in Inr \<lparr>ordinal = 693596, hour = h', minute = py_int m\<rparr>)"

section \<open>Arithmetic and formatting\<close>

text \<open>
  \<^verbatim>\<open>dt - datetime.timedelta(minutes=k)\<close>: the library adds the delta to the days, hours
  and minutes of \<^verbatim>\<open>dt\<close>, normalises, and raises \<^verbatim>\<open>OverflowError\<close> when the day
  leaves 1 .. 3652059 (the years 1 to 9999).
\<close>

definition sub_minutes :: "datetime \<Rightarrow> int \<Rightarrow> error + datetime" where
  "sub_minutes dt k =
     (let total = (ordinal dt * 24 + hour dt) * 60 + minute dt - k;
          days = total div 1440;
          rem = total mod 1440
      in if 0 < days \<and> days \<le> 3652059
         then Inr \<lparr>ordinal = days, hour = rem div 60, minute = rem mod 60\<rparr>
         else Inl OverflowError)"

text \<open>\<^verbatim>\<open>strftime("%I:%M %p")\<close>: the hour of the 12-hour clock and the minute, two digits each.\<close>

definition digit_char :: "int \<Rightarrow> nat" where
  "digit_char d = code_point CHR ''0'' + nat d"

definition two_digits :: "int \<Rightarrow> ustr" where
  "two_digits n = [digit_char (n div 10), digit_char (n mod 10)]"

definition strftime :: "datetime \<Rightarrow> ustr" where
  "strftime dt =
     two_digits (let h = hour dt mod 12 in if h = 0 then 12 else h) @ py_str '':'' @
     two_digits (minute dt) @ py_str '' '' @
     (if hour dt < 12 then py_str ''AM'' else py_str ''PM'')"

section \<open>\<^verbatim>\<open>get_zawal_time\<close>\<close>

text \<open>The \<^verbatim>\<open>try\<close> block of lines 81-84.\<close>

definition zawal_try :: "ustr \<Rightarrow> error + ustr" where
  "zawal_try dhuhr_time =
     (case strptime dhuhr_time of
        Inl e \<Rightarrow> Inl e
      | Inr dhuhr_dt \<Rightarrow>
          (case sub_minutes dhuhr_dt 5 of
             Inl e \<Rightarrow> Inl e
           | Inr zawal_dt \<Rightarrow> Inr (strftime zawal_dt)))"

text \<open>\<^verbatim>\<open>except Exception\<close> catches each of the errors and returns the fallback.\<close>

definition get_zawal_time :: "ustr \<Rightarrow> ustr" where
  "get_zawal_time dhuhr_time =
     (case zawal_try dhuhr_time of Inl e \<Rightarrow> py_str ''11:45 AM'' | Inr r \<Rightarrow> r)"

section \<open>The specification's pattern\<close>

text \<open>
  The pattern \<^verbatim>\<open>HH:MM AM|PM\<close> in the specification's words: a two-digit hour of the
  12-hour clock (01 to 12), a colon, a two-digit minute (00 to 59), one space, and
  \<^verbatim>\<open>AM\<close> or \<^verbatim>\<open>PM\<close> in capitals.
\<close>

fun well_formed :: "ustr \<Rightarrow> bool" where
  "well_formed [h1, h2, c, m1, m2, sp, a, b] =
     (((h1 = code_point CHR ''0'' \<and> in_range CHR ''1'' CHR ''9'' h2) \<or>
       (h1 = code_point CHR ''1'' \<and> in_range CHR ''0'' CHR ''2'' h2)) \<and>
      c = code_point CHR '':'' \<and>
      in_range CHR ''0'' CHR ''5'' m1 \<and> in_range CHR ''0'' CHR ''9'' m2 \<and>
      sp = code_point CHR '' '' \<and>
      (a = code_point CHR ''A'' \<or> a = code_point CHR ''P'') \<and> b = code_point CHR ''M'')"
| "well_formed _ = False"

section \<open>The strings the parser accepts\<close>

text \<open>
  Read off the regular expression: the hour is one or two of the digits \<^verbatim>\<open>0\<close> to
  \<^verbatim>\<open>9\<close> with a value from 1 to 12; the minute is one decimal digit of any script, or
  one of \<^verbatim>\<open>0\<close> to \<^verbatim>\<open>5\<close> and then a decimal digit of any script, so that its value
  is at most 59; the meridiem is \<^verbatim>\<open>am\<close> or \<^verbatim>\<open>pm\<close> in either case of each letter.
\<close>

definition hour_text :: "ustr \<Rightarrow> bool" where
  "hour_text i = (list_all (in_range CHR ''0'' CHR ''9'') i \<and> (length i = 1 \<or> length i = 2) \<and>
     1 \<le> py_int i \<and> py_int i \<le> 12)"

definition minute_text :: "ustr \<Rightarrow> bool" where
  "minute_text m = (list_all is_digit m \<and>
     (length m = 1 \<or> (length m = 2 \<and> in_range CHR ''0'' CHR ''5'' (hd m))))"

definition meridiem_text :: "ustr \<Rightarrow> bool" where
  "meridiem_text p =
     (p \<in> set (map py_str [''am'', ''aM'', ''Am'', ''AM'', ''pm'', ''pM'', ''Pm'', ''PM'']))"

text \<open>
  The lenient form of a time string: an hour text up to the first colon, then a minute
  text, then at least one white-space character, then a meridiem text and nothing more.
\<close>

definition lenient_form :: "ustr \<Rightarrow> bool" where
  "lenient_form s =
     (let i = takeWhile (\<lambda>c. c \<noteq> code_point CHR '':'') s;
          r = drop (length i + 1) s;
          m = takeWhile is_digit r;
          r' = dropWhile is_digit r;
          w = takeWhile is_space r';
          p = dropWhile is_space r'
      in length i < length s \<and> hour_text i \<and> minute_text m \<and> w \<noteq> [] \<and> meridiem_text p)"

text \<open>The texts the three groups of the regular expression can capture.\<close>

definition I_shape :: "ustr \<Rightarrow> bool" where
  "I_shape a = ((\<exists>c. a = [code_point CHR ''1'', c] \<and> in_range CHR ''0'' CHR ''2'' c) \<or>
                (\<exists>c. a = [code_point CHR ''0'', c] \<and> in_range CHR ''1'' CHR ''9'' c) \<or>
                (\<exists>c. a = [c] \<and> in_range CHR ''1'' CHR ''9'' c))"

definition M_shape :: "ustr \<Rightarrow> bool" where
  "M_shape a = ((\<exists>c d. a = [c, d] \<and> in_range CHR ''0'' CHR ''5'' c \<and> is_digit d) \<or>
                (\<exists>c. a = [c] \<and> is_digit c))"

definition p_shape :: "ustr \<Rightarrow> bool" where
  "p_shape a = (\<exists>c d. a = [c, d] \<and> (ignorecase CHR ''a'' c \<or> ignorecase CHR ''p'' c) \<and>
                 ignorecase CHR ''m'' d)"

section \<open>The catalog, evaluated\<close>

lemma prayer_names_distinct:
  "distinct [fajr, tulu_aftab, zuhr, asr, maghrib, isha]"
  by (simp add: fajr_def tulu_aftab_def zuhr_def asr_def maghrib_def isha_def)

lemma dict_display_six:
  assumes "distinct [k1, k2, k3, k4, k5, k6]"
  shows "dict_display [(k1, v1), (k2, v2), (k3, v3), (k4, v4), (k5, v5), (k6, v6)]
         = [(k1, v1), (k2, v2), (k3, v3), (k4, v4), (k5, v5), (k6, v6)]"
  using assms by (simp add: dict_display_def)

lemmas times_entries =
  dict_display_six [OF prayer_names_distinct]

lemma prayer_times_data_entries:
  "prayer_times_data =
     [(''Karachi'', karachi_times), (''Lahore'', lahore_times),
      (''Islamabad'', islamabad_times), (''Peshawar'', peshawar_times),
      (''Quetta'', quetta_times)]"
  by (simp add: prayer_times_data_def dict_display_def)

lemma default_entry: "dict_getitem prayer_times_data ''Karachi'' = Inr karachi_times"
  by (simp add: prayer_times_data_entries dict_getitem_def)

lemma get_prayer_times_lookup:
  "get_prayer_times city =
     Inr (case map_of prayer_times_data city of None \<Rightarrow> karachi_times | Some v \<Rightarrow> v)"
  by (simp add: get_prayer_times_def default_entry dict_get_def)

section \<open>Time lookup\<close>

text \<open>
  C1. For each of the five keys of the catalog, \<^const>\<open>get_prayer_times\<close> returns that
  city's own dictionary of the literal, and the catalog has those five keys and no other.
\<close>

theorem get_prayer_times_catalog_city:
  "dict_keys prayer_times_data = [''Karachi'', ''Lahore'', ''Islamabad'', ''Peshawar'', ''Quetta'']
   \<and> get_prayer_times ''Karachi'' = Inr karachi_times
   \<and> get_prayer_times ''Lahore'' = Inr lahore_times
   \<and> get_prayer_times ''Islamabad'' = Inr islamabad_times
   \<and> get_prayer_times ''Peshawar'' = Inr peshawar_times
   \<and> get_prayer_times ''Quetta'' = Inr quetta_times"
  by (simp add: get_prayer_times_lookup prayer_times_data_entries dict_keys_def)

text \<open>
  C2. For every string that is not a key of the catalog, the empty string and
  \<^verbatim>\<open>karachi\<close> among them, \<^const>\<open>get_prayer_times\<close> returns Karachi's dictionary; and
  for every string at all it returns a dictionary, never an error.
\<close>

theorem get_prayer_times_unknown_city:
  "(city \<notin> set (dict_keys prayer_times_data) \<longrightarrow> get_prayer_times city = Inr karachi_times)
   \<and> (\<exists>v. get_prayer_times city = Inr v)"
  by (simp add: get_prayer_times_lookup prayer_times_data_entries dict_keys_def)

theorem get_prayer_times_unknown_city_witness:
  "'''' \<notin> set (dict_keys prayer_times_data) \<and> get_prayer_times '''' = Inr karachi_times
   \<and> ''karachi'' \<notin> set (dict_keys prayer_times_data)
   \<and> get_prayer_times ''karachi'' = Inr karachi_times"
  using get_prayer_times_unknown_city [of "''''"] get_prayer_times_unknown_city [of "''karachi''"]
  by (simp add: prayer_times_data_entries dict_keys_def)

text \<open>
  C7. The catalog has five entries; each of them has six items, and the keys of each are
  the same six distinct names in the same order: fajr, sunrise, zuhr, asr, maghrib, isha.
\<close>

theorem catalog_six_keys_each:
  "dict_len prayer_times_data = 5
   \<and> map (\<lambda>(city, times). dict_len times) prayer_times_data = [6, 6, 6, 6, 6]
   \<and> map (\<lambda>(city, times). dict_keys times) prayer_times_data
       = replicate 5 [fajr, tulu_aftab, zuhr, asr, maghrib, isha]
   \<and> distinct [fajr, tulu_aftab, zuhr, asr, maghrib, isha]"
  using prayer_names_distinct
  by (simp add: prayer_times_data_entries dict_len_def dict_keys_def
      karachi_times_def lahore_times_def islamabad_times_def peshawar_times_def
      quetta_times_def times_entries numeral_eq_Suc)

text \<open>
  C9. A call of \<^verbatim>\<open>get_prayer_times()\<close> with no argument takes the default
  \<^verbatim>\<open>"Karachi"\<close> and returns Karachi's dictionary.
\<close>

theorem get_prayer_times_no_argument:
  "get_prayer_times_call None = get_prayer_times ''Karachi''
   \<and> get_prayer_times_call None = Inr karachi_times"
  by (simp add: get_prayer_times_call_def get_prayer_times_lookup prayer_times_data_entries)

section \<open>Secondary-time derivation on the specification's examples\<close>

lemmas zawal_eval =
  get_zawal_time_def zawal_try_def strptime_def format_regex_match_def
  format_regex_matches_def then_match_def re_I_def re_M_def re_p_def re_lit_def re_alt_def
  re_seq_def re_class_def in_range_def is_digit_def decimal_def decimal_value_def
  decimal_runs_def is_space_def whitespace_def ignorecase_def lower_char_def
  code_point_def py_str_def py_int_def sub_minutes_def strftime_def two_digits_def
  digit_char_def

text \<open>
  C4. \<^verbatim>\<open>12:00 AM\<close> less five minutes is \<^verbatim>\<open>11:55 PM\<close>: the result is on the day
  before (ordinal 693595), and the formatted string does not show it.
\<close>

theorem get_zawal_time_midnight:
  "get_zawal_time (py_str ''12:00 AM'') = py_str ''11:55 PM''
   \<and> strptime (py_str ''12:00 AM'') = Inr \<lparr>ordinal = 693596, hour = 0, minute = 0\<rparr>
   \<and> sub_minutes \<lparr>ordinal = 693596, hour = 0, minute = 0\<rparr> 5
       = Inr \<lparr>ordinal = 693595, hour = 23, minute = 55\<rparr>"
  by (simp add: zawal_eval)

text \<open>
  C6. \<^verbatim>\<open>12:30 PM\<close> less five minutes is \<^verbatim>\<open>12:25 PM\<close>.
\<close>

theorem get_zawal_time_half_past_noon:
  "get_zawal_time (py_str ''12:30 PM'') = py_str ''12:25 PM''"
  by (simp add: zawal_eval)

text \<open>
  Further inputs, for comparison with the library: a minute or an hour of one digit, a
  meridiem in lower case, white space that is a tab, a no-break space or an em space, a
  minute written with Arabic-Indic digits, the minutes around midnight, and three strings
  the parser rejects.
\<close>

lemma get_zawal_time_examples:
  "get_zawal_time (py_str ''12:3 PM'') = py_str ''11:58 AM''"
  "get_zawal_time (py_str ''1:5 am'') = py_str ''01:00 AM''"
  "get_zawal_time (py_str ''12:30'' @ [0x09, 0xA0] @ py_str ''PM'') = py_str ''12:25 PM''"
  "get_zawal_time (py_str ''12:30'' @ [0x2003] @ py_str ''PM'') = py_str ''12:25 PM''"
  "get_zawal_time (py_str ''12:3'' @ [0x660] @ py_str '' PM'') = py_str ''12:25 PM''"
  "get_zawal_time (py_str ''12:'' @ [0x667] @ py_str '' PM'') = py_str ''12:02 PM''"
  "get_zawal_time (py_str ''12:04 AM'') = py_str ''11:59 PM''"
  "get_zawal_time (py_str ''12:05 AM'') = py_str ''12:00 AM''"
  "get_zawal_time (py_str ''00:30 PM'') = py_str ''11:45 AM''"
  "get_zawal_time (py_str ''12:30 PM '') = py_str ''11:45 AM''"
  "get_zawal_time (py_str ''not a time'') = py_str ''11:45 AM''"
  by (simp_all add: zawal_eval)

section \<open>What the matchers accept\<close>

text \<open>
  Each matcher lists exactly the splits of the string into a matched text and a rest that
  its expression allows.
\<close>

lemma in_then_match:
  "x \<in> set (then_match ms f) \<longleftrightarrow> (\<exists>a r. (a, r) \<in> set ms \<and> x \<in> set (f a r))"
  by (auto simp: then_match_def)

lemma in_re_class:
  "(a, r) \<in> set (re_class P s) \<longleftrightarrow> (\<exists>c. s = c # r \<and> P c \<and> a = [c])"
  by (auto simp: re_class_def split: list.splits)

lemma in_re_lit:
  "(a, r) \<in> set (re_lit x s) \<longleftrightarrow> s = code_point x # r \<and> a = [code_point x]"
  by (auto simp: re_lit_def in_re_class)

lemma in_re_seq:
  "(a, r) \<in> set (re_seq p q s) \<longleftrightarrow>
     (\<exists>a1 r1 a2. (a1, r1) \<in> set (p s) \<and> (a2, r) \<in> set (q r1) \<and> a = a1 @ a2)"
  by (auto simp: re_seq_def in_then_match)

lemma in_re_alt:
  "(a, r) \<in> set (re_alt p q s) \<longleftrightarrow> (a, r) \<in> set (p s) \<or> (a, r) \<in> set (q s)"
  by (simp add: re_alt_def)

lemma in_re_plus:
  "(a, r) \<in> set (re_plus P s) \<longleftrightarrow> a \<noteq> [] \<and> list_all P a \<and> s = a @ r"
proof (induction s arbitrary: a)
  case Nil
  then show ?case by simp
next
  case (Cons c s)
  show ?case
  proof (cases "P c")
    case False
    then show ?thesis by (cases a) auto
  next
    case True
    then show ?thesis using Cons.IH
      by (cases a) (auto simp: Cons_eq_append_conv)
  qed
qed

lemma code_point_consts:
  "code_point CHR ''0'' = 48" "code_point CHR ''1'' = 49" "code_point CHR ''2'' = 50"
  "code_point CHR ''5'' = 53" "code_point CHR ''9'' = 57" "code_point CHR '':'' = 58"
  "code_point CHR '' '' = 32"
  "code_point CHR ''a'' = 97" "code_point CHR ''A'' = 65"
  "code_point CHR ''p'' = 112" "code_point CHR ''P'' = 80"
  "code_point CHR ''m'' = 109" "code_point CHR ''M'' = 77"
  by (simp_all add: code_point_def)

lemma in_re_I: "(a, r) \<in> set (re_I s) \<longleftrightarrow> s = a @ r \<and> I_shape a"
  by (auto simp: re_I_def I_shape_def in_re_alt in_re_seq in_re_class in_re_lit)

lemma in_re_M: "(a, r) \<in> set (re_M s) \<longleftrightarrow> s = a @ r \<and> M_shape a"
  by (auto simp: re_M_def M_shape_def in_re_alt in_re_seq in_re_class)

lemma in_re_p: "(a, r) \<in> set (re_p s) \<longleftrightarrow> s = a @ r \<and> p_shape a"
  by (auto simp: re_p_def p_shape_def in_re_alt in_re_seq in_re_class)

lemma in_format_regex_matches:
  "((i, m, p), r) \<in> set (format_regex_matches s) \<longleftrightarrow>
     (\<exists>w. s = i @ code_point CHR '':'' # m @ w @ p @ r \<and> I_shape i \<and> M_shape m \<and>
          w \<noteq> [] \<and> list_all is_space w \<and> p_shape p)"
  (is "?L \<longleftrightarrow> ?R")
proof
  assume ?L
  then show ?R
    by (auto simp: format_regex_matches_def in_then_match in_re_I in_re_M in_re_p in_re_lit
        in_re_plus)
next
  assume ?R
  then obtain w where w: "s = i @ code_point CHR '':'' # m @ w @ p @ r" "I_shape i" "M_shape m"
    "w \<noteq> []" "list_all is_space w" "p_shape p" by blast
  have 1: "(i, code_point CHR '':'' # m @ w @ p @ r) \<in> set (re_I s)"
    using w by (simp add: in_re_I)
  have 2: "([code_point CHR '':''], m @ w @ p @ r)
      \<in> set (re_lit CHR '':'' (code_point CHR '':'' # m @ w @ p @ r))"
    by (simp add: in_re_lit)
  have 3: "(m, w @ p @ r) \<in> set (re_M (m @ w @ p @ r))"
    using w by (simp add: in_re_M)
  have 4: "(w, p @ r) \<in> set (re_plus is_space (w @ p @ r))"
    using w by (simp add: in_re_plus)
  have 5: "(p, r) \<in> set (re_p (p @ r))"
    using w by (simp add: in_re_p)
  show ?L
    unfolding format_regex_matches_def in_then_match
    using 1 2 3 4 5 by (meson list.set_intros(1))
qed

section \<open>The tables of digits and white space\<close>

text \<open>
  The digits \<^verbatim>\<open>0\<close> to \<^verbatim>\<open>9\<close> are decimal digits with their usual values, no white-space
  character is a decimal digit, and the letters of the meridiem are not white space.
\<close>

lemma decimal_ascii:
  "in_range CHR ''0'' CHR ''9'' c \<Longrightarrow> decimal c = Some (c - 48)"
  by (simp add: decimal_def decimal_runs_def in_range_def code_point_consts)


lemma is_digit_ascii: "in_range CHR ''0'' CHR ''9'' c \<Longrightarrow> is_digit c"
  by (simp add: is_digit_def decimal_ascii)


lemma decimal_value_ascii:
  "in_range CHR ''0'' CHR ''9'' c \<Longrightarrow> decimal_value c = c - 48"
  by (simp add: decimal_value_def decimal_ascii)


lemma in_range_digit:
  "in_range CHR ''0'' CHR ''2'' c \<Longrightarrow> in_range CHR ''0'' CHR ''9'' c"
  "in_range CHR ''0'' CHR ''5'' c \<Longrightarrow> in_range CHR ''0'' CHR ''9'' c"
  "in_range CHR ''1'' CHR ''9'' c \<Longrightarrow> in_range CHR ''0'' CHR ''9'' c"
  by (simp_all add: in_range_def code_point_consts)

lemma whitespace_not_digit: "list_all (\<lambda>c. \<not> is_digit c) whitespace"
  by (simp add: whitespace_def is_digit_def decimal_def decimal_runs_def)

lemma is_space_not_digit: "is_space c \<Longrightarrow> \<not> is_digit c"
  using whitespace_not_digit by (simp add: is_space_def list_all_iff)

lemma not_space_letters:
  "\<not> is_space 97" "\<not> is_space 65" "\<not> is_space 112" "\<not> is_space 80"
  by (simp_all add: is_space_def whitespace_def)


lemma ignorecase_iff:
  "ignorecase CHR ''a'' c \<longleftrightarrow> c = 97 \<or> c = 65"
  "ignorecase CHR ''p'' c \<longleftrightarrow> c = 112 \<or> c = 80"
  "ignorecase CHR ''m'' c \<longleftrightarrow> c = 109 \<or> c = 77"
  by (auto simp: ignorecase_def code_point_consts)

lemma p_shape_head: "p_shape p \<Longrightarrow> \<exists>c d. p = [c, d] \<and> \<not> is_space c"
  unfolding p_shape_def ignorecase_iff using not_space_letters by blast


lemma p_shape_meridiem_text: "p_shape p \<longleftrightarrow> meridiem_text p"
  unfolding p_shape_def ignorecase_iff meridiem_text_def
  by (auto simp: py_str_def code_point_def)

lemma py_int_1: "py_int [c] = int (decimal_value c)"
  by (simp add: py_int_def)


lemma py_int_2: "py_int [c, d] = 10 * int (decimal_value c) + int (decimal_value d)"
  by (simp add: py_int_def)

section \<open>The groups and their values\<close>

text \<open>
  The texts the hour, minute and meridiem groups capture are the hour, minute and
  meridiem texts.
\<close>

lemma decimal_value_range: "48 \<le> c \<Longrightarrow> c \<le> 57 \<Longrightarrow> decimal_value c = c - 48"
  using decimal_value_ascii [of c] by (simp add: in_range_def code_point_consts)

lemma I_shape_hour_text: "I_shape i \<longleftrightarrow> hour_text i"
proof
  assume "I_shape i"
  then consider c where "i = [49, c]" "48 \<le> c" "c \<le> 50"
    | c where "i = [48, c]" "49 \<le> c" "c \<le> 57"
    | c where "i = [c]" "49 \<le> c" "c \<le> 57"
    by (auto simp: I_shape_def in_range_def code_point_consts)
  then show "hour_text i"
  proof cases
    case 1
    then show ?thesis
      by (simp add: hour_text_def in_range_def code_point_consts py_int_2 decimal_value_range)
  next
    case 2
    then show ?thesis
      by (simp add: hour_text_def in_range_def code_point_consts py_int_2 decimal_value_range)
  next
    case 3
    then show ?thesis
      by (simp add: hour_text_def in_range_def code_point_consts py_int_1 decimal_value_range)
  qed
next
  assume h: "hour_text i"
  then consider c where "i = [c]" | c d where "i = [c, d]"
    by (auto simp: hour_text_def length_Suc_conv numeral_2_eq_2)
  then show "I_shape i"
  proof cases
    case 1
    with h have "48 \<le> c" "c \<le> 57" "1 \<le> py_int [c]"
      by (auto simp: hour_text_def in_range_def code_point_consts)
    then have "49 \<le> c" "c \<le> 57"
      by (auto simp: py_int_1 decimal_value_range)
    with 1 show ?thesis
      by (simp add: I_shape_def in_range_def code_point_consts)
  next
    case 2
    with h have cd: "48 \<le> c" "c \<le> 57" "48 \<le> d" "d \<le> 57"
      and v: "1 \<le> py_int [c, d]" "py_int [c, d] \<le> 12"
      by (auto simp: hour_text_def in_range_def code_point_consts)
    from v have "1 \<le> 10 * int (c - 48) + int (d - 48)" "10 * int (c - 48) + int (d - 48) \<le> 12"
      using cd by (simp_all add: py_int_2 decimal_value_range)
    with cd have "(c = 48 \<and> 49 \<le> d) \<or> (c = 49 \<and> d \<le> 50)"
      by arith
    with cd 2 show ?thesis
      by (auto simp: I_shape_def in_range_def code_point_consts)
  qed
qed

lemma M_shape_minute_text: "M_shape m \<longleftrightarrow> minute_text m"
proof
  assume "M_shape m"
  then show "minute_text m"
    by (auto simp: M_shape_def minute_text_def is_digit_ascii in_range_digit)
next
  assume h: "minute_text m"
  then consider c where "m = [c]" | c d where "m = [c, d]"
    by (auto simp: minute_text_def length_Suc_conv numeral_2_eq_2)
  then show "M_shape m"
  proof cases
    case 1
    with h show ?thesis by (auto simp: M_shape_def minute_text_def)
  next
    case 2
    with h show ?thesis by (auto simp: M_shape_def minute_text_def)
  qed
qed

section \<open>The match is unique, and the parser accepts exactly the lenient form\<close>

text \<open>
  Backtracking finds no second way: every match of the expression on a string has the same
  groups and the same rest, so the first match is the match. \<^const>\<open>strptime\<close> returns a
  \<^verbatim>\<open>datetime\<close> on the strings of the lenient form and raises \<^verbatim>\<open>ValueError\<close> on every
  other string.
\<close>

lemma member_parts:
  assumes "((i, m, p), r) \<in> set (format_regex_matches s)"
  shows "takeWhile (\<lambda>c. c \<noteq> code_point CHR '':'') s = i"
    and "length i < length s"
    and "takeWhile is_digit (drop (length i + 1) s) = m"
    and "takeWhile is_space (dropWhile is_digit (drop (length i + 1) s)) \<noteq> []"
    and "dropWhile is_space (dropWhile is_digit (drop (length i + 1) s)) = p @ r"
    and "length p = 2"
proof -
  from assms obtain w where s: "s = i @ code_point CHR '':'' # m @ w @ p @ r"
    and sh: "I_shape i" "M_shape m" "w \<noteq> []" "list_all is_space w" "p_shape p"
    unfolding in_format_regex_matches by blast
  from sh(1) have i: "\<And>c. c \<in> set i \<Longrightarrow> c \<noteq> code_point CHR '':''"
    by (auto simp: I_shape_hour_text hour_text_def list_all_iff in_range_def code_point_consts)
  from sh(2) have m: "\<And>c. c \<in> set m \<Longrightarrow> is_digit c"
    by (auto simp: M_shape_minute_text minute_text_def list_all_iff)
  from sh(3,4) obtain w0 w' where w: "w = w0 # w'" "is_space w0" "\<And>c. c \<in> set w \<Longrightarrow> is_space c"
    by (cases w) (auto simp: list_all_iff)
  from sh(5) obtain c d where p: "p = [c, d]" "\<not> is_space c"
    using p_shape_head by blast
  show "takeWhile (\<lambda>c. c \<noteq> code_point CHR '':'') s = i"
    using i by (simp add: s takeWhile_append2)
  show "length i < length s" by (simp add: s)
  have d: "drop (length i + 1) s = m @ w @ p @ r" by (simp add: s)
  show "takeWhile is_digit (drop (length i + 1) s) = m"
    unfolding d using m w(1,2) by (simp add: takeWhile_append2 is_space_not_digit)
  have d': "dropWhile is_digit (drop (length i + 1) s) = w @ p @ r"
    unfolding d using m w(1,2) by (simp add: dropWhile_append2 is_space_not_digit)
  show "takeWhile is_space (dropWhile is_digit (drop (length i + 1) s)) \<noteq> []"
    unfolding d' using w(1,2) by simp
  show "dropWhile is_space (dropWhile is_digit (drop (length i + 1) s)) = p @ r"
    unfolding d' using w(3) p by (simp add: dropWhile_append2)
  show "length p = 2" by (simp add: p)
qed

lemma member_unique:
  assumes "((i, m, p), r) \<in> set (format_regex_matches s)"
    and "x \<in> set (format_regex_matches s)"
  shows "x = ((i, m, p), r)"
proof -
  obtain i' m' p' r' where x: "x = ((i', m', p'), r')" by (cases x) auto
  note a = member_parts [OF assms(1)] and b = member_parts [OF assms(2) [unfolded x]]
  from a(1) b(1) have "i' = i" by simp
  moreover from a(3) b(3) \<open>i' = i\<close> have "m' = m" by simp
  moreover from a(5,6) b(5,6) \<open>i' = i\<close> have "p' = p \<and> r' = r" by simp
  ultimately show ?thesis by (simp add: x)
qed

lemma format_regex_match_member:
  assumes "((i, m, p), r) \<in> set (format_regex_matches s)"
  shows "format_regex_match s = Some ((i, m, p), r)"
proof (cases "format_regex_matches s")
  case Nil
  with assms show ?thesis by simp
next
  case (Cons x xs)
  then have "x \<in> set (format_regex_matches s)" by simp
  from member_unique [OF assms this] Cons show ?thesis
    by (simp add: format_regex_match_def)
qed

lemma format_regex_match_Some:
  "format_regex_match s = Some x \<longleftrightarrow> x \<in> set (format_regex_matches s)"
proof
  assume "format_regex_match s = Some x"
  then show "x \<in> set (format_regex_matches s)"
    by (auto simp: format_regex_match_def split: list.splits)
next
  assume m: "x \<in> set (format_regex_matches s)"
  obtain i m' p r where x: "x = ((i, m', p), r)" by (cases x) auto
  from m show "format_regex_match s = Some x"
    unfolding x by (rule format_regex_match_member)
qed

lemma lenient_form_decomp:
  "lenient_form s \<longleftrightarrow>
     (\<exists>i m w p. s = i @ code_point CHR '':'' # m @ w @ p \<and> hour_text i \<and> minute_text m \<and>
        w \<noteq> [] \<and> list_all is_space w \<and> meridiem_text p)"
  (is "?L \<longleftrightarrow> ?R")
proof
  assume ?R
  then obtain i m w p where "s = i @ code_point CHR '':'' # m @ w @ p @ []" "I_shape i" "M_shape m"
    "w \<noteq> []" "list_all is_space w" "p_shape p"
    by (auto simp: I_shape_hour_text M_shape_minute_text p_shape_meridiem_text)
  then have mem: "((i, m, p), []) \<in> set (format_regex_matches s)"
    unfolding in_format_regex_matches by blast
  from member_parts [OF mem] \<open>I_shape i\<close> \<open>M_shape m\<close> \<open>p_shape p\<close>
  show ?L
    by (simp add: lenient_form_def Let_def I_shape_hour_text M_shape_minute_text
        p_shape_meridiem_text)
next
  assume l: ?L
  define i where "i = takeWhile (\<lambda>c. c \<noteq> code_point CHR '':'') s"
  define rest where "rest = dropWhile (\<lambda>c. c \<noteq> code_point CHR '':'') s"
  define r where "r = drop (length i + 1) s"
  define m where "m = takeWhile is_digit r"
  define w where "w = takeWhile is_space (dropWhile is_digit r)"
  define p where "p = dropWhile is_space (dropWhile is_digit r)"
  from l have f: "length i < length s" "hour_text i" "minute_text m" "w \<noteq> []" "meridiem_text p"
    by (simp_all add: lenient_form_def Let_def i_def r_def m_def w_def p_def)
  have s: "s = i @ rest" by (simp add: i_def rest_def)
  with f(1) have ne: "rest \<noteq> []" by auto
  then have "hd rest = code_point CHR '':''"
    using hd_dropWhile [of "\<lambda>c. c \<noteq> code_point CHR '':''" s] by (simp add: rest_def)
  with ne have rest: "rest = code_point CHR '':'' # tl rest" by (cases rest) auto
  have "r = tl rest" by (simp add: r_def s drop_Suc)
  with s rest have s': "s = i @ code_point CHR '':'' # r" by simp
  have "r = m @ w @ p" by (simp add: m_def w_def p_def)
  moreover have "list_all is_space w"
    by (auto simp: w_def list_all_iff dest: set_takeWhileD)
  ultimately show ?R using f s' by blast
qed

lemma strptime_accepts_iff: "(\<exists>dt. strptime s = Inr dt) \<longleftrightarrow> lenient_form s"
proof
  assume "\<exists>dt. strptime s = Inr dt"
  then obtain i m p where "format_regex_match s = Some ((i, m, p), [])"
    by (auto simp: strptime_def split: option.splits if_splits)
  then have "((i, m, p), []) \<in> set (format_regex_matches s)"
    by (simp add: format_regex_match_Some)
  then show "lenient_form s"
    unfolding in_format_regex_matches lenient_form_decomp
    by (auto simp: I_shape_hour_text M_shape_minute_text p_shape_meridiem_text)
next
  assume "lenient_form s"
  then obtain i m w p where "s = i @ code_point CHR '':'' # m @ w @ p @ []" "I_shape i" "M_shape m"
    "w \<noteq> []" "list_all is_space w" "p_shape p"
    by (auto simp: lenient_form_decomp I_shape_hour_text M_shape_minute_text
        p_shape_meridiem_text)
  then have "((i, m, p), []) \<in> set (format_regex_matches s)"
    unfolding in_format_regex_matches by blast
  then have "format_regex_match s = Some ((i, m, p), [])"
    by (rule format_regex_match_member)
  then show "\<exists>dt. strptime s = Inr dt"
    by (simp add: strptime_def Let_def)
qed

section \<open>Formatting gives back what was parsed\<close>

text \<open>
  Two digits parsed and formatted with two digits are the same two digits, and subtracting
  no minutes leaves a \<^verbatim>\<open>datetime\<close> of the supported range as it is.
\<close>

lemma digit_char_eq: "digit_char d = 48 + nat d"
  by (simp add: digit_char_def code_point_consts)



lemma py_str_consts:
  "py_str ''am'' = [97, 109]" "py_str ''pm'' = [112, 109]"
  "py_str ''AM'' = [65, 77]" "py_str ''PM'' = [80, 77]"
  "py_str '':'' = [58]" "py_str '' '' = [32]"
  by (simp_all add: py_str_def code_point_def)


section \<open>The formatted string is always zero-padded\<close>

text \<open>
  The subtraction normalises the hour to 0 .. 23 and the minute to 0 .. 59, and
  \<^const>\<open>strftime\<close> writes any such time in the pattern \<^verbatim>\<open>HH:MM AM|PM\<close>.
\<close>

lemma two_digits_hour12:
  assumes "1 \<le> h" "h \<le> 12"
  shows "(digit_char (h div 10) = 48 \<and> 49 \<le> digit_char (h mod 10) \<and> digit_char (h mod 10) \<le> 57)
       \<or> (digit_char (h div 10) = 49 \<and> 48 \<le> digit_char (h mod 10) \<and> digit_char (h mod 10) \<le> 50)"
proof (cases "h < 10")
  case True
  with assms have "h div 10 = 0" "h mod 10 = h" by simp_all
  with assms True show ?thesis by (auto simp: digit_char_eq)
next
  case False
  with assms have "h div 10 = 1" "h mod 10 = h - 10" by presburger+
  with assms False show ?thesis by (auto simp: digit_char_eq)
qed

lemma two_digits_minute:
  assumes "0 \<le> m" "m < 60"
  shows "48 \<le> digit_char (m div 10) \<and> digit_char (m div 10) \<le> 53
       \<and> 48 \<le> digit_char (m mod 10) \<and> digit_char (m mod 10) \<le> 57"
proof -
  from assms have "0 \<le> m div 10" "m div 10 < 6" by simp_all
  moreover have "0 \<le> m mod 10" "m mod 10 < 10" by simp_all
  ultimately show ?thesis by (auto simp: digit_char_eq)
qed

lemma strftime_well_formed:
  assumes "0 \<le> hour dt" "hour dt < 24" "0 \<le> minute dt" "minute dt < 60"
  shows "well_formed (strftime dt)"
proof -
  define h where "h = (let h = hour dt mod 12 in if h = 0 then 12 else h)"
  have "0 \<le> hour dt mod 12" "hour dt mod 12 < 12" by simp_all
  then have h: "1 \<le> h" "h \<le> 12" by (auto simp: h_def Let_def)
  show ?thesis
    using two_digits_hour12 [OF h] two_digits_minute [OF assms(3,4)]
    by (simp add: strftime_def two_digits_def h_def [symmetric] py_str_consts in_range_def
        code_point_consts)
qed

lemma sub_minutes_range:
  assumes "sub_minutes dt k = Inr dt'"
  shows "0 \<le> hour dt' \<and> hour dt' < 24 \<and> 0 \<le> minute dt' \<and> minute dt' < 60"
proof -
  define total where "total = (ordinal dt * 24 + hour dt) * 60 + minute dt - k"
  have r: "0 \<le> total mod 1440" "total mod 1440 < 1440" by simp_all
  from assms have "dt' = \<lparr>ordinal = total div 1440, hour = total mod 1440 div 60,
      minute = total mod 1440 mod 60\<rparr>"
    by (auto simp: sub_minutes_def Let_def total_def split: if_splits)
  moreover from r have "0 \<le> total mod 1440 div 60" "total mod 1440 div 60 < 24"
    by (simp_all add: div_less_iff_less_mult)
  ultimately show ?thesis by simp
qed

lemma fallback_well_formed: "well_formed (py_str ''11:45 AM'')"
  by (simp add: py_str_def code_point_def in_range_def)

lemma get_zawal_time_well_formed: "well_formed (get_zawal_time s)"
proof (cases "zawal_try s")
  case (Inl e)
  then show ?thesis by (simp add: get_zawal_time_def fallback_well_formed)
next
  case (Inr r)
  then obtain dt dt' where "sub_minutes dt 5 = Inr dt'" "r = strftime dt'"
    by (auto simp: zawal_try_def split: sum.splits)
  with sub_minutes_range [of dt 5 dt'] Inr show ?thesis
    by (simp add: get_zawal_time_def strftime_well_formed)
qed

section \<open>Secondary-time derivation: the general claims\<close>


text \<open>
  C3, as the code has it. The parser is more lenient than the pattern
  \<^verbatim>\<open>HH:MM AM|PM\<close>: it takes an hour or a minute of one digit, a minute digit of any
  script, any run of white space and a meridiem in lower case. For every input string that
  is not of this lenient form (no colon, no meridiem, an hour outside 1 to 12, a minute
  outside 0 to 59, anything before or after), \<^verbatim>\<open>strptime\<close> raises \<^verbatim>\<open>ValueError\<close>, the
  \<^verbatim>\<open>except\<close> clause catches it, and \<^const>\<open>get_zawal_time\<close> returns \<^verbatim>\<open>11:45 AM\<close>.
\<close>

theorem get_zawal_time_fallback:
  "\<not> lenient_form s \<Longrightarrow>
     strptime s = Inl ValueError \<and> get_zawal_time s = py_str ''11:45 AM''"
proof -
  assume "\<not> lenient_form s"
  then have "\<nexists>dt. strptime s = Inr dt" by (simp add: strptime_accepts_iff)
  then have "strptime s = Inl ValueError"
    by (auto simp: strptime_def Let_def split: option.splits if_splits)
  then show ?thesis by (simp add: get_zawal_time_def zawal_try_def)
qed

theorem get_zawal_time_fallback_witness:
  "\<not> lenient_form (py_str ''not a time'')
   \<and> get_zawal_time (py_str ''not a time'') = py_str ''11:45 AM''
   \<and> \<not> lenient_form (py_str ''12:30'')
   \<and> get_zawal_time (py_str ''12:30'') = py_str ''11:45 AM''
   \<and> \<not> lenient_form (py_str ''13:30 PM'')
   \<and> get_zawal_time (py_str ''13:30 PM'') = py_str ''11:45 AM''
   \<and> \<not> lenient_form (py_str ''12:60 PM'')
   \<and> get_zawal_time (py_str ''12:60 PM'') = py_str ''11:45 AM''
   \<and> \<not> lenient_form (py_str ''12:'' @ [0x663, 0x660] @ py_str '' PM'')
   \<and> get_zawal_time (py_str ''12:'' @ [0x663, 0x660] @ py_str '' PM'') = py_str ''11:45 AM''"
proof -
  have 1: "\<not> lenient_form (py_str ''not a time'')"
    unfolding lenient_form_def Let_def
    by (simp add: py_str_def code_point_def)
  have i2: "takeWhile (\<lambda>c. c \<noteq> code_point CHR '':'') (py_str ''12:30'') = py_str ''12''"
    by (simp add: py_str_def code_point_def)
  have 2: "\<not> lenient_form (py_str ''12:30'')"
    unfolding lenient_form_def Let_def i2
    by (simp add: py_str_def code_point_def is_digit_def decimal_def decimal_runs_def)
  have i3: "takeWhile (\<lambda>c. c \<noteq> code_point CHR '':'') (py_str ''13:30 PM'') = py_str ''13''"
    by (simp add: py_str_def code_point_def)
  have 3: "\<not> lenient_form (py_str ''13:30 PM'')"
    unfolding lenient_form_def Let_def i3
    by (simp add: hour_text_def py_int_def decimal_value_def decimal_def decimal_runs_def
        py_str_def code_point_def)
  have i4: "takeWhile (\<lambda>c. c \<noteq> code_point CHR '':'') (py_str ''12:60 PM'') = py_str ''12''"
    by (simp add: py_str_def code_point_def)
  have 4: "\<not> lenient_form (py_str ''12:60 PM'')"
    unfolding lenient_form_def Let_def i4
    by (simp add: minute_text_def in_range_def is_digit_def decimal_def decimal_runs_def
        py_str_def code_point_def)
  have i5: "takeWhile (\<lambda>c. c \<noteq> code_point CHR '':'')
      (py_str ''12:'' @ [0x663, 0x660] @ py_str '' PM'') = py_str ''12''"
    by (simp add: py_str_def code_point_def)
  have 5: "\<not> lenient_form (py_str ''12:'' @ [0x663, 0x660] @ py_str '' PM'')"
    unfolding lenient_form_def Let_def i5
    by (simp add: minute_text_def in_range_def is_digit_def decimal_def decimal_runs_def
        py_str_def code_point_def)
  show ?thesis
    using 1 2 3 4 5 get_zawal_time_fallback [OF 1] get_zawal_time_fallback [OF 2]
      get_zawal_time_fallback [OF 3] get_zawal_time_fallback [OF 4]
      get_zawal_time_fallback [OF 5]
    by simp
qed

text \<open>
  C3, as the specification states it, fails: \<^verbatim>\<open>12:30 pm\<close> does not match the pattern
  \<^verbatim>\<open>HH:MM AM|PM\<close>, and the result is the computed \<^verbatim>\<open>12:25 PM\<close>, not the fallback.
\<close>

theorem get_zawal_time_lower_case_counterexample:
  "\<not> well_formed (py_str ''12:30 pm'')
   \<and> get_zawal_time (py_str ''12:30 pm'') = py_str ''12:25 PM''
   \<and> get_zawal_time (py_str ''12:30 pm'') \<noteq> py_str ''11:45 AM''"
  by (simp add: zawal_eval)




text \<open>
  C10. \<^verbatim>\<open>5:15 AM\<close>, with an hour of one digit, is outside the zero-padded pattern, and
  \<^const>\<open>get_zawal_time\<close> returns the computed \<^verbatim>\<open>05:10 AM\<close> for it, not the fallback.
  Whatever the input, the string returned is of the zero-padded pattern.
\<close>

theorem get_zawal_time_unpadded_hour:
  "\<not> well_formed (py_str ''5:15 AM'')
   \<and> get_zawal_time (py_str ''5:15 AM'') = py_str ''05:10 AM''
   \<and> well_formed (get_zawal_time s)"
proof -
  have "\<not> well_formed (py_str ''5:15 AM'')" by (simp add: py_str_def)
  moreover have "get_zawal_time (py_str ''5:15 AM'') = py_str ''05:10 AM''"
    by (simp add: zawal_eval)
  ultimately show ?thesis by (simp add: get_zawal_time_well_formed)
qed

end
